theory Spec2Isabelle
  imports Complex_Main
begin

section \<open>The flight motion model of game.js\<close>

text \<open>
  The scene of \<^verbatim>\<open>src/game.js\<close> (class \<^verbatim>\<open>GameScene\<close>) is embedded as
  a record that every method takes and returns. JavaScript numbers are modelled as
  \<^typ>\<open>real\<close>: the arithmetic of the source is kept expression by expression, its
  rounding to binary doubles is not. The decimal constants \<^verbatim>\<open>0.99\<close>,
  \<^verbatim>\<open>0.95\<close>, \<^verbatim>\<open>0.92\<close>, \<^verbatim>\<open>0.1\<close>, \<^verbatim>\<open>0.2\<close>
  and \<^verbatim>\<open>1/60\<close> are the exact fractions.
\<close>

subsection \<open>Constants\<close>

text \<open>\<^verbatim>\<open>PHYSICS\<close>\<close>

definition GRAVITY :: real where "GRAVITY = 800"
definition GLIDE_GRAVITY :: real where "GLIDE_GRAVITY = 600"
definition THRUST :: real where "THRUST = - 500"
definition THRUST_FORWARD_BOOST :: real where "THRUST_FORWARD_BOOST = 20"
definition GLIDE_FORWARD_MAINTAIN :: real where "GLIDE_FORWARD_MAINTAIN = 99 / 100"
definition FALL_DECELERATION :: real where "FALL_DECELERATION = 95 / 100"
definition DRAG :: real where "DRAG = 92 / 100"
definition BASE_FORWARD_SPEED :: real where "BASE_FORWARD_SPEED = 70"
definition MAX_FORWARD_SPEED :: real where "MAX_FORWARD_SPEED = 1700"
definition MAX_VELOCITY_Y :: real where "MAX_VELOCITY_Y = 600"
definition FALL_THRESHOLD :: real where "FALL_THRESHOLD = 300"

text \<open>\<^verbatim>\<open>MOVEMENT\<close>\<close>

definition MIN_X :: real where "MIN_X = 200"
definition MAX_X :: real where "MAX_X = 800"
definition CAMERA_LERP :: real where "CAMERA_LERP = 1 / 10"
definition WORLD_SCROLL_FACTOR :: real where "WORLD_SCROLL_FACTOR = 1"

text \<open>\<^verbatim>\<open>BACKGROUND\<close> (the numeric entry the frame loop reads) and \<^verbatim>\<open>GAME\<close>\<close>

definition CONSTANT_SCROLL_SPEED :: real where "CONSTANT_SCROLL_SPEED = 130"
definition WIDTH :: real where "WIDTH = 1920"
definition HEIGHT :: real where "HEIGHT = 1080"
definition BIRD_SIZE :: real where "BIRD_SIZE = 50"
definition BIRD_X :: real where "BIRD_X = 200"

subsection \<open>State\<close>

text \<open>
  The physics sprite \<^verbatim>\<open>this.bird\<close>: its position \<^verbatim>\<open>bird.x\<close>,
  \<^verbatim>\<open>bird.y\<close> and its body's velocity \<^verbatim>\<open>bird.body.velocity.x\<close>,
  \<^verbatim>\<open>bird.body.velocity.y\<close>.
\<close>

record sprite =
  bird_x :: real
  bird_y :: real
  body_velocity_x :: real
  body_velocity_y :: real

text \<open>
  The fields of the scene once \<^verbatim>\<open>create()\<close> has run, which the engine does
  before the first \<^verbatim>\<open>update\<close>: the bird and the distance text exist from then on.
  \<^verbatim>\<open>backgroundSprite\<close> keeps its null case (\<open>None\<close>), which
  \<^verbatim>\<open>updateBackgroundScrolling\<close> tests; when present it is represented by its
  \<^verbatim>\<open>tilePositionX\<close>. \<open>gravity_y\<close> is
  \<^verbatim>\<open>this.physics.world.gravity.y\<close>, \<open>scrollX\<close> is
  \<^verbatim>\<open>this.cameras.main.scrollX\<close>, and \<open>distanceText\<close> is the string last
  given to \<^verbatim>\<open>distanceText.setText\<close>.
\<close>

record scene =
  bird :: sprite
  isThrusting :: bool
  distance :: int
  distanceText :: string
  backgroundSprite :: "real option"
  backgroundOffset :: real
  forwardVelocity :: real
  cameraTargetX :: real
  worldOffset :: real
  gravity_y :: real
  scrollX :: real

subsection \<open>Engine helpers the scene calls\<close>

text \<open>
  Modelled from the spec: \<^verbatim>\<open>Phaser.Math.Clamp(value, min, max)\<close> is the engine's
  and not under src/; the spec has the forward velocity clamped to
  \<open>[BASE_FORWARD_SPEED, MAX_FORWARD_SPEED]\<close> by it, so it is the clamp of \<open>value\<close>
  into \<open>[min, max]\<close>.
\<close>

definition Clamp :: "real \<Rightarrow> real \<Rightarrow> real \<Rightarrow> real" where
  "Clamp v lo hi = max lo (min hi v)"

text \<open>
  Modelled from the spec: \<^verbatim>\<open>Phaser.Math.Linear(p0, p1, t)\<close> is the engine's and
  not under src/; the spec has the camera eased towards its target by linear interpolation
  with a fixed catch-up fraction per frame, so it moves from \<open>p0\<close> towards \<open>p1\<close> by
  the fraction \<open>t\<close> of their distance.
\<close>

definition Linear :: "real \<Rightarrow> real \<Rightarrow> real \<Rightarrow> real" where
  "Linear p0 p1 t = (p1 - p0) * t + p0"

text \<open>\<^verbatim>\<open>bird.setVelocityX(v)\<close> and \<^verbatim>\<open>bird.setVelocityY(v)\<close> store a
  component of the body's velocity.\<close>

definition setVelocityX :: "real \<Rightarrow> scene \<Rightarrow> scene" where
  "setVelocityX v s = s\<lparr>bird := (bird s)\<lparr>body_velocity_x := v\<rparr>\<rparr>"

definition setVelocityY :: "real \<Rightarrow> scene \<Rightarrow> scene" where
  "setVelocityY v s = s\<lparr>bird := (bird s)\<lparr>body_velocity_y := v\<rparr>\<rparr>"

text \<open>
  The template literal \<^verbatim>\<open>`Distance: ${this.distance}m`\<close> prints the integer
  \<^verbatim>\<open>this.distance\<close> in decimal (JavaScript does so for integers below
  \<open>10\<^sup>2\<^sup>1\<close> in magnitude).
\<close>

definition digit :: "nat \<Rightarrow> char" where
  "digit n = ''0123456789'' ! (n mod 10)"

fun showNat :: "nat \<Rightarrow> string" where
  "showNat n = (if n < 10 then [digit n] else showNat (n div 10) @ [digit n])"

declare showNat.simps [simp del]

definition showInt :: "int \<Rightarrow> string" where
  "showInt i = (if i < 0 then CHR ''-'' # showNat (nat (- i)) else showNat (nat i))"

subsection \<open>The methods of GameScene\<close>

text \<open>The input handlers registered by \<^verbatim>\<open>setupInput\<close>.\<close>

definition pointerdown :: "scene \<Rightarrow> scene" where
  "pointerdown s = s\<lparr>isThrusting := True\<rparr>"

definition pointerup :: "scene \<Rightarrow> scene" where
  "pointerup s = s\<lparr>isThrusting := False\<rparr>"

definition applyPhysics :: "real \<Rightarrow> scene \<Rightarrow> scene" where
  "applyPhysics deltaTime s =
     (if isThrusting s
      then (setVelocityY THRUST s)\<lparr>gravity_y := GRAVITY\<rparr>
      else s\<lparr>gravity_y := GLIDE_GRAVITY\<rparr>)"

definition updateForwardVelocity :: "real \<Rightarrow> scene \<Rightarrow> scene" where
  "updateForwardVelocity deltaTime s =
     (let s1 =
            (if isThrusting s
             then s\<lparr>forwardVelocity := forwardVelocity s + THRUST_FORWARD_BOOST * deltaTime\<rparr>
             else
               (let fallingBadly = body_velocity_y (bird s) > FALL_THRESHOLD
                in if fallingBadly
                   then s\<lparr>forwardVelocity := forwardVelocity s * FALL_DECELERATION\<rparr>
                   else s\<lparr>forwardVelocity := forwardVelocity s * GLIDE_FORWARD_MAINTAIN\<rparr>));
          s2 = s1\<lparr>forwardVelocity :=
                    Clamp (forwardVelocity s1) BASE_FORWARD_SPEED MAX_FORWARD_SPEED\<rparr>
      in setVelocityX (forwardVelocity s2) s2)"

definition constrainBirdPosition :: "scene \<Rightarrow> scene" where
  "constrainBirdPosition s =
     (let s1 =
            (if bird_x (bird s) < MIN_X
             then (let t = s\<lparr>bird := (bird s)\<lparr>bird_x := MIN_X\<rparr>\<rparr>
                   in setVelocityX (max 0 (body_velocity_x (bird t))) t)
             else if bird_x (bird s) > MAX_X
             then (let t = s\<lparr>bird := (bird s)\<lparr>bird_x := MAX_X\<rparr>\<rparr>
                   in setVelocityX (min 0 (body_velocity_x (bird t))) t)
             else s)
      in if bird_y (bird s1) < 0
         then (let t = s1\<lparr>bird := (bird s1)\<lparr>bird_y := 0\<rparr>\<rparr>
               in setVelocityY (max 0 (body_velocity_y (bird t))) t)
         else if bird_y (bird s1) > HEIGHT
         then (let t = s1\<lparr>bird := (bird s1)\<lparr>bird_y := HEIGHT\<rparr>\<rparr>
               in setVelocityY (min 0 (body_velocity_y (bird t))) t)
         else s1)"

definition updateCamera :: "real \<Rightarrow> scene \<Rightarrow> scene" where
  "updateCamera deltaTime s =
     (let s1 = s\<lparr>cameraTargetX := worldOffset s * (2 / 10)\<rparr>
      in s1\<lparr>scrollX := Linear (scrollX s1) (cameraTargetX s1) CAMERA_LERP\<rparr>)"

definition updateWorldPosition :: "real \<Rightarrow> scene \<Rightarrow> scene" where
  "updateWorldPosition deltaTime s =
     (let s1 = s\<lparr>worldOffset :=
                   worldOffset s + forwardVelocity s * deltaTime * WORLD_SCROLL_FACTOR\<rparr>;
          s2 = s1\<lparr>distance := \<lfloor>worldOffset s1 / 10\<rfloor>\<rparr>
      in s2\<lparr>distanceText := ''Distance: '' @ showInt (distance s2) @ ''m''\<rparr>)"

definition updateBackgroundScrolling :: "scene \<Rightarrow> scene" where
  "updateBackgroundScrolling s =
     (case backgroundSprite s of
        None \<Rightarrow> s
      | Some _ \<Rightarrow> s\<lparr>backgroundSprite := Some (backgroundOffset s)\<rparr>)"

text \<open>
  \<^verbatim>\<open>update(_, delta)\<close>: the first argument is ignored, \<open>delta\<close> is in
  milliseconds.
\<close>

definition update :: "real \<Rightarrow> real \<Rightarrow> scene \<Rightarrow> scene" where
  "update time delta s =
     (let deltaTime = delta / 1000;
          clampedDeltaTime = min deltaTime (1 / 60);
          s1 = applyPhysics clampedDeltaTime s;
          s2 = updateForwardVelocity clampedDeltaTime s1;
          s3 = constrainBirdPosition s2;
          s4 = updateCamera clampedDeltaTime s3;
          s5 = updateWorldPosition clampedDeltaTime s4;
          s6 = s5\<lparr>backgroundOffset :=
                    backgroundOffset s5 + CONSTANT_SCROLL_SPEED * clampedDeltaTime\<rparr>
      in updateBackgroundScrolling s6)"

text \<open>
  The scene after \<^verbatim>\<open>constructor()\<close> and \<^verbatim>\<open>create()\<close>: the fields the
  constructor initialises, the world gravity and the distance text set by
  \<^verbatim>\<open>create\<close>, the bird placed by \<^verbatim>\<open>createBird\<close> at
  \<open>(MIN_X, HEIGHT / 2)\<close> at rest, the tile sprite made by
  \<^verbatim>\<open>createBackground\<close>, and the camera at the origin.
\<close>

definition create :: scene where
  "create =
     \<lparr>bird = \<lparr>bird_x = MIN_X, bird_y = HEIGHT / 2, body_velocity_x = 0, body_velocity_y = 0\<rparr>,
      isThrusting = False,
      distance = 0,
      distanceText = ''Distance: 0m'',
      backgroundSprite = Some 0,
      backgroundOffset = 0,
      forwardVelocity = BASE_FORWARD_SPEED,
      cameraTargetX = 0,
      worldOffset = 0,
      gravity_y = GRAVITY,
      scrollX = 0\<rparr>"

subsection \<open>Runs of the scene\<close>

text \<open>
  What happens to a created scene: the two pointer events, a frame callback
  \<^verbatim>\<open>update(time, delta)\<close>, and the engine's physics pass between frames, which
  rewrites the bird's position and velocity (gravity, drag, velocity caps) in a way the
  repository does not define. \<open>HostPhysics f\<close> stands for such a pass: \<open>f\<close> is any
  function of the world gravity \<^verbatim>\<open>this.physics.world.gravity.y\<close>, which the engine
  reads when the pass runs, and of the bird as the scene left it.
\<close>

datatype event =
    Pointerdown
  | Pointerup
  | Update real real
  | HostPhysics "real \<Rightarrow> sprite \<Rightarrow> sprite"

fun step :: "event \<Rightarrow> scene \<Rightarrow> scene" where
  "step Pointerdown s = pointerdown s"
| "step Pointerup s = pointerup s"
| "step (Update time delta) s = update time delta s"
| "step (HostPhysics f) s = s\<lparr>bird := f (gravity_y s) (bird s)\<rparr>"

fun run :: "event list \<Rightarrow> scene \<Rightarrow> scene" where
  "run [] s = s"
| "run (e # es) s = run es (step e s)"

text \<open>
  Observers of a run: whether every frame of a list of events has a non-negative
  \<^verbatim>\<open>delta\<close>, the \<^verbatim>\<open>delta\<close>s of its frames in order, and the value of
  \<^verbatim>\<open>backgroundOffset\<close> after each of its frames.
\<close>

fun nonnegDelta :: "event \<Rightarrow> bool" where
  "nonnegDelta (Update time delta) = (0 \<le> delta)"
| "nonnegDelta _ = True"

fun frameDeltas :: "event list \<Rightarrow> real list" where
  "frameDeltas [] = []"
| "frameDeltas (Update time delta # es) = delta # frameDeltas es"
| "frameDeltas (_ # es) = frameDeltas es"

fun backgroundOffsets :: "event list \<Rightarrow> scene \<Rightarrow> real list" where
  "backgroundOffsets [] s = []"
| "backgroundOffsets (Update time delta # es) s =
     backgroundOffset (update time delta s) # backgroundOffsets es (update time delta s)"
| "backgroundOffsets (e # es) s = backgroundOffsets es (step e s)"

text \<open>
  The background accumulator as the spec words it: from a start value, each frame adds
  \<open>CONSTANT_SCROLL_SPEED * delta\<close>, with \<open>delta\<close> the frame's elapsed time in
  seconds capped at \<open>1/60\<close>; the list holds the value after each frame.
\<close>

fun accumulate :: "real \<Rightarrow> real list \<Rightarrow> real list" where
  "accumulate b [] = []"
| "accumulate b (d # ds) =
     (b + CONSTANT_SCROLL_SPEED * min (d / 1000) (1 / 60)) #
     accumulate (b + CONSTANT_SCROLL_SPEED * min (d / 1000) (1 / 60)) ds"



section \<open>Properties\<close>

subsection \<open>Each method, field by field\<close>

lemmas PHYSICS_defs =
  GRAVITY_def GLIDE_GRAVITY_def THRUST_def THRUST_FORWARD_BOOST_def
  GLIDE_FORWARD_MAINTAIN_def FALL_DECELERATION_def BASE_FORWARD_SPEED_def
  MAX_FORWARD_SPEED_def FALL_THRESHOLD_def

lemmas MOVEMENT_defs = MIN_X_def MAX_X_def CAMERA_LERP_def WORLD_SCROLL_FACTOR_def


lemma applyPhysics_bird:
  "bird (applyPhysics dt s) =
     (if isThrusting s then (bird s)\<lparr>body_velocity_y := THRUST\<rparr> else bird s)"
  by (simp add: applyPhysics_def setVelocityY_def)

lemma applyPhysics_other:
  "isThrusting (applyPhysics dt s) = isThrusting s"
  "forwardVelocity (applyPhysics dt s) = forwardVelocity s"
  "worldOffset (applyPhysics dt s) = worldOffset s"
  "backgroundOffset (applyPhysics dt s) = backgroundOffset s"
  "scrollX (applyPhysics dt s) = scrollX s"
  by (simp_all add: applyPhysics_def setVelocityY_def)

lemma updateForwardVelocity_forwardVelocity:
  "forwardVelocity (updateForwardVelocity dt s) =
     Clamp (if isThrusting s then forwardVelocity s + THRUST_FORWARD_BOOST * dt
            else if body_velocity_y (bird s) > FALL_THRESHOLD
                 then forwardVelocity s * FALL_DECELERATION
                 else forwardVelocity s * GLIDE_FORWARD_MAINTAIN)
       BASE_FORWARD_SPEED MAX_FORWARD_SPEED"
  by (simp add: updateForwardVelocity_def setVelocityX_def Let_def)

lemma updateForwardVelocity_bird:
  "bird (updateForwardVelocity dt s) =
     (bird s)\<lparr>body_velocity_x := forwardVelocity (updateForwardVelocity dt s)\<rparr>"
  by (simp add: updateForwardVelocity_def setVelocityX_def Let_def)

lemma updateForwardVelocity_other:
  "isThrusting (updateForwardVelocity dt s) = isThrusting s"
  "worldOffset (updateForwardVelocity dt s) = worldOffset s"
  "backgroundOffset (updateForwardVelocity dt s) = backgroundOffset s"
  "scrollX (updateForwardVelocity dt s) = scrollX s"
  "gravity_y (updateForwardVelocity dt s) = gravity_y s"
  by (simp_all add: updateForwardVelocity_def setVelocityX_def Let_def)

lemma constrainBirdPosition_other:
  "isThrusting (constrainBirdPosition s) = isThrusting s"
  "forwardVelocity (constrainBirdPosition s) = forwardVelocity s"
  "worldOffset (constrainBirdPosition s) = worldOffset s"
  "backgroundOffset (constrainBirdPosition s) = backgroundOffset s"
  "scrollX (constrainBirdPosition s) = scrollX s"
  "gravity_y (constrainBirdPosition s) = gravity_y s"
  by (simp_all add: constrainBirdPosition_def setVelocityX_def setVelocityY_def Let_def)

lemma constrainBirdPosition_x:
  "bird_x (bird (constrainBirdPosition s)) =
     (if bird_x (bird s) < MIN_X then MIN_X
      else if bird_x (bird s) > MAX_X then MAX_X else bird_x (bird s))"
  by (simp add: constrainBirdPosition_def setVelocityX_def setVelocityY_def Let_def)

lemma constrainBirdPosition_y:
  "bird_y (bird (constrainBirdPosition s)) =
     (if bird_y (bird s) < 0 then 0
      else if bird_y (bird s) > HEIGHT then HEIGHT else bird_y (bird s))"
  by (simp add: constrainBirdPosition_def setVelocityX_def setVelocityY_def Let_def)

lemma constrainBirdPosition_vx:
  "body_velocity_x (bird (constrainBirdPosition s)) =
     (if bird_x (bird s) < MIN_X then max 0 (body_velocity_x (bird s))
      else if bird_x (bird s) > MAX_X then min 0 (body_velocity_x (bird s))
      else body_velocity_x (bird s))"
  by (simp add: constrainBirdPosition_def setVelocityX_def setVelocityY_def Let_def)

lemma constrainBirdPosition_vy:
  "body_velocity_y (bird (constrainBirdPosition s)) =
     (if bird_y (bird s) < 0 then max 0 (body_velocity_y (bird s))
      else if bird_y (bird s) > HEIGHT then min 0 (body_velocity_y (bird s))
      else body_velocity_y (bird s))"
  by (simp add: constrainBirdPosition_def setVelocityX_def setVelocityY_def Let_def)

lemma updateCamera_fields:
  "cameraTargetX (updateCamera dt s) = worldOffset s * (2 / 10)"
  "scrollX (updateCamera dt s) = Linear (scrollX s) (worldOffset s * (2 / 10)) CAMERA_LERP"
  "bird (updateCamera dt s) = bird s"
  "isThrusting (updateCamera dt s) = isThrusting s"
  "forwardVelocity (updateCamera dt s) = forwardVelocity s"
  "worldOffset (updateCamera dt s) = worldOffset s"
  "backgroundOffset (updateCamera dt s) = backgroundOffset s"
  "gravity_y (updateCamera dt s) = gravity_y s"
  by (simp_all add: updateCamera_def Let_def)

lemma updateWorldPosition_fields:
  "worldOffset (updateWorldPosition dt s) =
     worldOffset s + forwardVelocity s * dt * WORLD_SCROLL_FACTOR"
  "distance (updateWorldPosition dt s) = \<lfloor>worldOffset (updateWorldPosition dt s) / 10\<rfloor>"
  "distanceText (updateWorldPosition dt s) =
     ''Distance: '' @ showInt (distance (updateWorldPosition dt s)) @ ''m''"
  "bird (updateWorldPosition dt s) = bird s"
  "isThrusting (updateWorldPosition dt s) = isThrusting s"
  "forwardVelocity (updateWorldPosition dt s) = forwardVelocity s"
  "backgroundOffset (updateWorldPosition dt s) = backgroundOffset s"
  "scrollX (updateWorldPosition dt s) = scrollX s"
  "cameraTargetX (updateWorldPosition dt s) = cameraTargetX s"
  "gravity_y (updateWorldPosition dt s) = gravity_y s"
  by (simp_all add: updateWorldPosition_def Let_def)

lemma updateBackgroundScrolling_fields:
  "bird (updateBackgroundScrolling s) = bird s"
  "isThrusting (updateBackgroundScrolling s) = isThrusting s"
  "forwardVelocity (updateBackgroundScrolling s) = forwardVelocity s"
  "worldOffset (updateBackgroundScrolling s) = worldOffset s"
  "backgroundOffset (updateBackgroundScrolling s) = backgroundOffset s"
  "scrollX (updateBackgroundScrolling s) = scrollX s"
  "cameraTargetX (updateBackgroundScrolling s) = cameraTargetX s"
  "distance (updateBackgroundScrolling s) = distance s"
  "distanceText (updateBackgroundScrolling s) = distanceText s"
  "gravity_y (updateBackgroundScrolling s) = gravity_y s"
  by (simp_all add: updateBackgroundScrolling_def split: option.split)

lemma updateBackgroundScrolling_sprite:
  "backgroundSprite (updateBackgroundScrolling s) =
     (case backgroundSprite s of None \<Rightarrow> None | Some _ \<Rightarrow> Some (backgroundOffset s))"
  by (simp add: updateBackgroundScrolling_def split: option.split)

lemmas step_fields =
  applyPhysics_other updateForwardVelocity_other constrainBirdPosition_other
  updateCamera_fields updateWorldPosition_fields updateBackgroundScrolling_fields

subsection \<open>The frame callback, field by field\<close>

lemma update_isThrusting: "isThrusting (update t d s) = isThrusting s"
  by (simp add: update_def Let_def step_fields)


lemma update_forwardVelocity:
  "forwardVelocity (update t d s) =
     forwardVelocity (updateForwardVelocity (min (d / 1000) (1 / 60))
       (applyPhysics (min (d / 1000) (1 / 60)) s))"
  by (simp add: update_def Let_def step_fields)

lemma update_forwardVelocity_Clamp:
  "forwardVelocity (update t d s) =
     Clamp (if isThrusting s
            then forwardVelocity s + THRUST_FORWARD_BOOST * min (d / 1000) (1 / 60)
            else if body_velocity_y (bird s) > FALL_THRESHOLD
                 then forwardVelocity s * FALL_DECELERATION
                 else forwardVelocity s * GLIDE_FORWARD_MAINTAIN)
       BASE_FORWARD_SPEED MAX_FORWARD_SPEED"
  by (simp add: update_forwardVelocity updateForwardVelocity_forwardVelocity
      applyPhysics_other applyPhysics_bird)

lemma update_bird:
  "bird (update t d s) =
     bird (constrainBirdPosition (updateForwardVelocity (min (d / 1000) (1 / 60))
       (applyPhysics (min (d / 1000) (1 / 60)) s)))"
  by (simp add: update_def Let_def step_fields)

lemma update_worldOffset:
  "worldOffset (update t d s) =
     worldOffset s + forwardVelocity (update t d s) * min (d / 1000) (1 / 60) * WORLD_SCROLL_FACTOR"
  by (simp add: update_def Let_def step_fields)

lemma update_backgroundOffset:
  "backgroundOffset (update t d s) =
     backgroundOffset s + CONSTANT_SCROLL_SPEED * min (d / 1000) (1 / 60)"
  by (simp add: update_def Let_def step_fields)

lemma update_camera:
  "cameraTargetX (update t d s) = worldOffset s * (2 / 10)"
  "scrollX (update t d s) = Linear (scrollX s) (worldOffset s * (2 / 10)) CAMERA_LERP"
  by (simp_all add: update_def Let_def step_fields)

lemma update_distance:
  "distance (update t d s) = \<lfloor>worldOffset (update t d s) / 10\<rfloor>"
  "distanceText (update t d s) = ''Distance: '' @ showInt (distance (update t d s)) @ ''m''"
  by (simp_all add: update_def Let_def step_fields)

subsection \<open>Invariants of runs\<close>

lemma Clamp_bounds: "lo \<le> hi \<Longrightarrow> lo \<le> Clamp v lo hi \<and> Clamp v lo hi \<le> hi"
  by (simp add: Clamp_def)

lemma update_forwardVelocity_bounds:
  "BASE_FORWARD_SPEED \<le> forwardVelocity (update t d s) \<and>
   forwardVelocity (update t d s) \<le> MAX_FORWARD_SPEED"
  unfolding update_forwardVelocity_Clamp
  by (rule Clamp_bounds) (simp add: PHYSICS_defs)

lemma step_forwardVelocity_bounds:
  assumes "BASE_FORWARD_SPEED \<le> forwardVelocity s \<and> forwardVelocity s \<le> MAX_FORWARD_SPEED"
  shows "BASE_FORWARD_SPEED \<le> forwardVelocity (step e s) \<and>
         forwardVelocity (step e s) \<le> MAX_FORWARD_SPEED"
proof (cases e)
  case (Update t d)
  then show ?thesis using update_forwardVelocity_bounds [of t d s] by simp
qed (use assms in \<open>simp_all add: pointerdown_def pointerup_def\<close>)

lemma run_forwardVelocity_bounds:
  "BASE_FORWARD_SPEED \<le> forwardVelocity s \<and> forwardVelocity s \<le> MAX_FORWARD_SPEED \<Longrightarrow>
   BASE_FORWARD_SPEED \<le> forwardVelocity (run evs s) \<and>
   forwardVelocity (run evs s) \<le> MAX_FORWARD_SPEED"
proof (induction evs arbitrary: s)
  case Nil
  then show ?case by simp
next
  case (Cons e evs)
  from Cons.prems have "BASE_FORWARD_SPEED \<le> forwardVelocity (step e s) \<and>
         forwardVelocity (step e s) \<le> MAX_FORWARD_SPEED"
    by (rule step_forwardVelocity_bounds)
  then show ?case using Cons.IH [of "step e s"] by simp
qed

lemma run_append: "run (xs @ ys) s = run ys (run xs s)"
  by (induction xs arbitrary: s) simp_all

lemma update_worldOffset_mono:
  assumes "0 \<le> d"
  shows "worldOffset s \<le> worldOffset (update t d s)"
proof -
  have "0 \<le> forwardVelocity (update t d s)"
    using update_forwardVelocity_bounds [of t d s] by (simp add: BASE_FORWARD_SPEED_def)
  moreover have "0 \<le> min (d / 1000) (1 / 60 :: real)"
    using assms by simp
  ultimately have "0 \<le> forwardVelocity (update t d s) * min (d / 1000) (1 / 60)"
    by (rule mult_nonneg_nonneg)
  then show ?thesis
    by (simp add: update_worldOffset WORLD_SCROLL_FACTOR_def)
qed

lemma update_backgroundOffset_mono:
  assumes "0 \<le> d"
  shows "backgroundOffset s \<le> backgroundOffset (update t d s)"
  using assms by (simp add: update_backgroundOffset CONSTANT_SCROLL_SPEED_def)

lemma step_offsets_mono:
  assumes "nonnegDelta e"
  shows "worldOffset s \<le> worldOffset (step e s) \<and>
         backgroundOffset s \<le> backgroundOffset (step e s)"
proof (cases e)
  case (Update t d)
  with assms have "0 \<le> d" by simp
  then show ?thesis
    using update_worldOffset_mono [of d s t] update_backgroundOffset_mono [of d s t] Update
    by simp
qed (simp_all add: pointerdown_def pointerup_def)

lemma run_offsets_mono:
  "list_all nonnegDelta evs \<Longrightarrow>
   worldOffset s \<le> worldOffset (run evs s) \<and> backgroundOffset s \<le> backgroundOffset (run evs s)"
proof (induction evs arbitrary: s)
  case Nil
  then show ?case by simp
next
  case (Cons e evs)
  then have e: "nonnegDelta e" and es: "list_all nonnegDelta evs" by simp_all
  from step_offsets_mono [OF e, of s] Cons.IH [OF es, of "step e s"]
  show ?case by auto
qed

lemma step_backgroundOffset_other:
  "backgroundOffset (pointerdown s) = backgroundOffset s"
  "backgroundOffset (pointerup s) = backgroundOffset s"
  by (simp_all add: pointerdown_def pointerup_def)

lemma backgroundOffsets_accumulate:
  "backgroundOffsets evs s = accumulate (backgroundOffset s) (frameDeltas evs)"
proof (induction evs arbitrary: s)
  case Nil
  then show ?case by simp
next
  case (Cons e evs)
  then show ?case
    by (cases e) (simp_all add: update_backgroundOffset step_backgroundOffset_other)
qed

lemma run_backgroundOffset:
  "backgroundOffset (run evs s) =
     backgroundOffset s +
     CONSTANT_SCROLL_SPEED * (\<Sum>d\<leftarrow>frameDeltas evs. min (d / 1000) (1 / 60))"
proof (induction evs arbitrary: s)
  case Nil
  then show ?case by simp
next
  case (Cons e evs)
  then show ?case
    by (cases e)
      (simp_all add: update_backgroundOffset step_backgroundOffset_other distrib_left)
qed

subsection \<open>The engine's frame\<close>





subsection \<open>The claims\<close>

text \<open>
  C1: the forward-velocity update adds \<open>THRUST_FORWARD_BOOST * delta = 20 * delta\<close> to
  \<^verbatim>\<open>forwardVelocity\<close> when \<^verbatim>\<open>isThrusting\<close> holds; otherwise it
  multiplies it by \<open>FALL_DECELERATION = 0.95\<close> when the bird's vertical velocity
  exceeds \<open>FALL_THRESHOLD = 300\<close> and by \<open>GLIDE_FORWARD_MAINTAIN = 0.99\<close> when it
  does not; the result is clamped to \<open>[70, 1700]\<close> and stored as the bird's horizontal
  velocity. Inside a frame the step runs with the capped elapsed time
  \<open>min (delta / 1000) (1 / 60)\<close> and sees the vertical velocity the frame started with
  whenever it reads it.
\<close>

theorem updateForwardVelocity_rule:
  "forwardVelocity (updateForwardVelocity dt s) =
     max 70 (min 1700
       (if isThrusting s then forwardVelocity s + 20 * dt
        else if 300 < body_velocity_y (bird s) then forwardVelocity s * (95 / 100)
        else forwardVelocity s * (99 / 100))) \<and>
   body_velocity_x (bird (updateForwardVelocity dt s)) =
     forwardVelocity (updateForwardVelocity dt s) \<and>
   forwardVelocity (update t d s) =
     max 70 (min 1700
       (if isThrusting s then forwardVelocity s + 20 * min (d / 1000) (1 / 60)
        else if 300 < body_velocity_y (bird s) then forwardVelocity s * (95 / 100)
        else forwardVelocity s * (99 / 100)))"
proof -
  have "forwardVelocity (updateForwardVelocity dt s) =
     max 70 (min 1700
       (if isThrusting s then forwardVelocity s + 20 * dt
        else if 300 < body_velocity_y (bird s) then forwardVelocity s * (95 / 100)
        else forwardVelocity s * (99 / 100)))"
    by (simp add: updateForwardVelocity_forwardVelocity Clamp_def PHYSICS_defs)
  moreover have "body_velocity_x (bird (updateForwardVelocity dt s)) =
     forwardVelocity (updateForwardVelocity dt s)"
    by (simp add: updateForwardVelocity_bird)
  moreover have "forwardVelocity (update t d s) =
     max 70 (min 1700
       (if isThrusting s then forwardVelocity s + 20 * min (d / 1000) (1 / 60)
        else if 300 < body_velocity_y (bird s) then forwardVelocity s * (95 / 100)
        else forwardVelocity s * (99 / 100)))"
    by (simp add: update_forwardVelocity_Clamp Clamp_def PHYSICS_defs)
  ultimately show ?thesis by blast
qed

text \<open>
  The three branches at the spec's scenarios 1 to 3, and a first gliding frame of 16 ms, where
  the clamp restores the base speed.
\<close>

theorem updateForwardVelocity_scenarios:
  "forwardVelocity (updateForwardVelocity (16 / 1000) (create\<lparr>isThrusting := True\<rparr>)) = 7032 / 100 \<and>
   forwardVelocity (updateForwardVelocity (1 / 10)
     (create\<lparr>bird := (bird create)\<lparr>body_velocity_y := 350\<rparr>, forwardVelocity := 100\<rparr>)) = 95 \<and>
   forwardVelocity (updateForwardVelocity (1 / 10)
     (create\<lparr>bird := (bird create)\<lparr>body_velocity_y := 50\<rparr>, forwardVelocity := 100\<rparr>)) = 99 \<and>
   forwardVelocity (update 0 16 create) = 70"
  using updateForwardVelocity_rule [where dt = "16 / 1000" and s = "create\<lparr>isThrusting := True\<rparr>"]
    updateForwardVelocity_rule [where dt = "1 / 10" and
      s = "create\<lparr>bird := (bird create)\<lparr>body_velocity_y := 350\<rparr>, forwardVelocity := 100\<rparr>"]
    updateForwardVelocity_rule [where dt = "1 / 10" and
      s = "create\<lparr>bird := (bird create)\<lparr>body_velocity_y := 50\<rparr>, forwardVelocity := 100\<rparr>"]
    updateForwardVelocity_rule [where t = 0 and d = 16 and s = create]
  by (simp add: create_def BASE_FORWARD_SPEED_def)





text \<open>
  C3: \<open>BASE_FORWARD_SPEED = 70 \<le> forwardVelocity \<le> MAX_FORWARD_SPEED = 1700\<close> after
  the forward-velocity update, from any state; the scene starts with
  \<open>forwardVelocity = 70\<close>, and the bound holds in every state a created scene reaches
  through frames, pointer events and physics passes.
\<close>

theorem forwardVelocity_bounds:
  "forwardVelocity create = 70 \<and>
   70 \<le> forwardVelocity (updateForwardVelocity dt s) \<and>
   forwardVelocity (updateForwardVelocity dt s) \<le> 1700 \<and>
   70 \<le> forwardVelocity (update t d s) \<and>
   forwardVelocity (update t d s) \<le> 1700 \<and>
   70 \<le> forwardVelocity (run evs create) \<and>
   forwardVelocity (run evs create) \<le> 1700"
proof -
  have c: "forwardVelocity create = 70"
    by (simp add: create_def BASE_FORWARD_SPEED_def)
  have "BASE_FORWARD_SPEED \<le> forwardVelocity (updateForwardVelocity dt s) \<and>
        forwardVelocity (updateForwardVelocity dt s) \<le> MAX_FORWARD_SPEED"
    unfolding updateForwardVelocity_forwardVelocity
    by (rule Clamp_bounds) (simp add: PHYSICS_defs)
  then have u: "70 \<le> forwardVelocity (updateForwardVelocity dt s) \<and>
        forwardVelocity (updateForwardVelocity dt s) \<le> 1700"
    by (simp add: PHYSICS_defs)
  have f: "70 \<le> forwardVelocity (update t d s) \<and> forwardVelocity (update t d s) \<le> 1700"
    using update_forwardVelocity_bounds [of t d s] by (simp add: PHYSICS_defs)
  have "BASE_FORWARD_SPEED \<le> forwardVelocity create \<and>
        forwardVelocity create \<le> MAX_FORWARD_SPEED"
    using c by (simp add: PHYSICS_defs)
  then have "BASE_FORWARD_SPEED \<le> forwardVelocity (run evs create) \<and>
        forwardVelocity (run evs create) \<le> MAX_FORWARD_SPEED"
    by (rule run_forwardVelocity_bounds)
  then have r: "70 \<le> forwardVelocity (run evs create) \<and> forwardVelocity (run evs create) \<le> 1700"
    by (simp add: PHYSICS_defs)
  show ?thesis using c u f r by blast
qed

text \<open>
  C4: after the bound-enforcement step, \<open>MIN_X = 200 \<le> bird.x \<le> MAX_X = 800\<close> and
  \<open>0 \<le> bird.y \<le> HEIGHT = 1080\<close>, from any state; the later steps of the frame do
  not move the bird, so the same holds when the frame callback returns.
\<close>

theorem constrainBirdPosition_bounds:
  "200 \<le> bird_x (bird (constrainBirdPosition s)) \<and>
   bird_x (bird (constrainBirdPosition s)) \<le> 800 \<and>
   0 \<le> bird_y (bird (constrainBirdPosition s)) \<and>
   bird_y (bird (constrainBirdPosition s)) \<le> 1080 \<and>
   200 \<le> bird_x (bird (update t d s)) \<and>
   bird_x (bird (update t d s)) \<le> 800 \<and>
   0 \<le> bird_y (bird (update t d s)) \<and>
   bird_y (bird (update t d s)) \<le> 1080"
  by (simp add: update_bird constrainBirdPosition_x constrainBirdPosition_y
      MIN_X_def MAX_X_def HEIGHT_def)

text \<open>
  C5: in the bound-enforcement step a triggered clamp also clamps the matching velocity
  component. When \<open>bird.x < MIN_X\<close> the position becomes \<open>MIN_X\<close> and the horizontal
  velocity \<open>max 0 v\<close>; when \<open>bird.x > MAX_X\<close> they become \<open>MAX_X\<close> and
  \<open>min 0 v\<close>; when \<open>bird.y < 0\<close> the position becomes \<open>0\<close> and the vertical
  velocity \<open>max 0 v\<close>; when \<open>bird.y > HEIGHT\<close> they become \<open>HEIGHT\<close> and
  \<open>min 0 v\<close>. An axis whose clamp does not trigger keeps its position and velocity, and
  when no clamp triggers the step changes nothing at all.
\<close>

theorem constrainBirdPosition_rule:
  "(bird_x (bird s) < 200 \<longrightarrow>
      bird_x (bird (constrainBirdPosition s)) = 200 \<and>
      body_velocity_x (bird (constrainBirdPosition s)) = max 0 (body_velocity_x (bird s))) \<and>
   (800 < bird_x (bird s) \<longrightarrow>
      bird_x (bird (constrainBirdPosition s)) = 800 \<and>
      body_velocity_x (bird (constrainBirdPosition s)) = min 0 (body_velocity_x (bird s))) \<and>
   (200 \<le> bird_x (bird s) \<and> bird_x (bird s) \<le> 800 \<longrightarrow>
      bird_x (bird (constrainBirdPosition s)) = bird_x (bird s) \<and>
      body_velocity_x (bird (constrainBirdPosition s)) = body_velocity_x (bird s)) \<and>
   (bird_y (bird s) < 0 \<longrightarrow>
      bird_y (bird (constrainBirdPosition s)) = 0 \<and>
      body_velocity_y (bird (constrainBirdPosition s)) = max 0 (body_velocity_y (bird s))) \<and>
   (1080 < bird_y (bird s) \<longrightarrow>
      bird_y (bird (constrainBirdPosition s)) = 1080 \<and>
      body_velocity_y (bird (constrainBirdPosition s)) = min 0 (body_velocity_y (bird s))) \<and>
   (0 \<le> bird_y (bird s) \<and> bird_y (bird s) \<le> 1080 \<longrightarrow>
      bird_y (bird (constrainBirdPosition s)) = bird_y (bird s) \<and>
      body_velocity_y (bird (constrainBirdPosition s)) = body_velocity_y (bird s)) \<and>
   (200 \<le> bird_x (bird s) \<and> bird_x (bird s) \<le> 800 \<and>
    0 \<le> bird_y (bird s) \<and> bird_y (bird s) \<le> 1080 \<longrightarrow>
      constrainBirdPosition s = s)"
proof -
  have x: "bird_x (bird (constrainBirdPosition s)) =
     (if bird_x (bird s) < 200 then 200
      else if 800 < bird_x (bird s) then 800 else bird_x (bird s))"
    by (simp add: constrainBirdPosition_x MIN_X_def MAX_X_def)
  have vx: "body_velocity_x (bird (constrainBirdPosition s)) =
     (if bird_x (bird s) < 200 then max 0 (body_velocity_x (bird s))
      else if 800 < bird_x (bird s) then min 0 (body_velocity_x (bird s))
      else body_velocity_x (bird s))"
    by (simp add: constrainBirdPosition_vx MIN_X_def MAX_X_def)
  have y: "bird_y (bird (constrainBirdPosition s)) =
     (if bird_y (bird s) < 0 then 0
      else if 1080 < bird_y (bird s) then 1080 else bird_y (bird s))"
    by (simp add: constrainBirdPosition_y HEIGHT_def)
  have vy: "body_velocity_y (bird (constrainBirdPosition s)) =
     (if bird_y (bird s) < 0 then max 0 (body_velocity_y (bird s))
      else if 1080 < bird_y (bird s) then min 0 (body_velocity_y (bird s))
      else body_velocity_y (bird s))"
    by (simp add: constrainBirdPosition_vy HEIGHT_def)
  have same: "constrainBirdPosition s = s"
    if "200 \<le> bird_x (bird s) \<and> bird_x (bird s) \<le> 800 \<and>
        0 \<le> bird_y (bird s) \<and> bird_y (bird s) \<le> 1080"
    using that by (simp add: constrainBirdPosition_def MIN_X_def MAX_X_def HEIGHT_def)
  show ?thesis
    using x vx y vy same by simp
qed

text \<open>
  Scenario 4 of the spec (\<open>x = 190\<close> with velocity \<open>70\<close>), a bird beyond the right and
  the bottom bound, a thrusting bird above the top bound, and the freshly created scene.
\<close>

theorem constrainBirdPosition_scenarios:
  "bird_x (bird (constrainBirdPosition
     (create\<lparr>bird := \<lparr>bird_x = 190, bird_y = 540, body_velocity_x = 70, body_velocity_y = 0\<rparr>\<rparr>))) = 200 \<and>
   body_velocity_x (bird (constrainBirdPosition
     (create\<lparr>bird := \<lparr>bird_x = 190, bird_y = 540, body_velocity_x = 70, body_velocity_y = 0\<rparr>\<rparr>))) = 70 \<and>
   bird_y (bird (constrainBirdPosition
     (create\<lparr>bird := \<lparr>bird_x = 190, bird_y = 540, body_velocity_x = 70, body_velocity_y = 0\<rparr>\<rparr>))) = 540 \<and>
   bird_x (bird (constrainBirdPosition
     (create\<lparr>bird := \<lparr>bird_x = 801, bird_y = 1100, body_velocity_x = 70, body_velocity_y = 250\<rparr>\<rparr>))) = 800 \<and>
   body_velocity_x (bird (constrainBirdPosition
     (create\<lparr>bird := \<lparr>bird_x = 801, bird_y = 1100, body_velocity_x = 70, body_velocity_y = 250\<rparr>\<rparr>))) = 0 \<and>
   bird_y (bird (constrainBirdPosition
     (create\<lparr>bird := \<lparr>bird_x = 801, bird_y = 1100, body_velocity_x = 70, body_velocity_y = 250\<rparr>\<rparr>))) = 1080 \<and>
   body_velocity_y (bird (constrainBirdPosition
     (create\<lparr>bird := \<lparr>bird_x = 801, bird_y = 1100, body_velocity_x = 70, body_velocity_y = 250\<rparr>\<rparr>))) = 0 \<and>
   body_velocity_y (bird (constrainBirdPosition
     (create\<lparr>bird := \<lparr>bird_x = 300, bird_y = - 4, body_velocity_x = 70, body_velocity_y = - 500\<rparr>\<rparr>))) = 0 \<and>
   constrainBirdPosition create = create"
  using
    constrainBirdPosition_rule [of
      "create\<lparr>bird := \<lparr>bird_x = 190, bird_y = 540, body_velocity_x = 70, body_velocity_y = 0\<rparr>\<rparr>"]
    constrainBirdPosition_rule [of
      "create\<lparr>bird := \<lparr>bird_x = 801, bird_y = 1100, body_velocity_x = 70, body_velocity_y = 250\<rparr>\<rparr>"]
    constrainBirdPosition_rule [of
      "create\<lparr>bird := \<lparr>bird_x = 300, bird_y = - 4, body_velocity_x = 70, body_velocity_y = - 500\<rparr>\<rparr>"]
    constrainBirdPosition_rule [of create]
  by (simp add: create_def MIN_X_def HEIGHT_def)

text \<open>
  C6: along any run whose frames have non-negative \<open>delta\<close>, \<^verbatim>\<open>worldOffset\<close>
  and \<^verbatim>\<open>backgroundOffset\<close> never decrease: extending a run by such events (frames,
  pointer events, physics passes) leaves both at least as large. Each frame adds
  \<open>forwardVelocity * delta * WORLD_SCROLL_FACTOR\<close> to \<^verbatim>\<open>worldOffset\<close>, with the
  forward velocity of that frame, which is not negative, and \<open>130 * delta\<close> to
  \<^verbatim>\<open>backgroundOffset\<close>, where \<open>delta\<close> is the capped elapsed time in seconds.
\<close>

theorem offsets_monotone:
  assumes "list_all nonnegDelta evs2"
  shows
    "worldOffset (run evs1 s) \<le> worldOffset (run (evs1 @ evs2) s) \<and>
     backgroundOffset (run evs1 s) \<le> backgroundOffset (run (evs1 @ evs2) s) \<and>
     (\<forall>t d s'. worldOffset (update t d s') =
        worldOffset s' + forwardVelocity (update t d s') * min (d / 1000) (1 / 60) * 1 \<and>
        0 \<le> forwardVelocity (update t d s') \<and>
        backgroundOffset (update t d s') = backgroundOffset s' + 130 * min (d / 1000) (1 / 60))"
proof -
  have "worldOffset (run evs1 s) \<le> worldOffset (run evs2 (run evs1 s)) \<and>
        backgroundOffset (run evs1 s) \<le> backgroundOffset (run evs2 (run evs1 s))"
    using assms by (rule run_offsets_mono)
  then have m: "worldOffset (run evs1 s) \<le> worldOffset (run (evs1 @ evs2) s) \<and>
     backgroundOffset (run evs1 s) \<le> backgroundOffset (run (evs1 @ evs2) s)"
    by (simp add: run_append)
  have f: "0 \<le> forwardVelocity (update t d s')" for t d s'
    using update_forwardVelocity_bounds [of t d s'] by (simp add: BASE_FORWARD_SPEED_def)
  have w: "worldOffset (update t d s') =
        worldOffset s' + forwardVelocity (update t d s') * min (d / 1000) (1 / 60) * 1" for t d s'
    using update_worldOffset [of t d s'] by (simp add: WORLD_SCROLL_FACTOR_def)
  have b: "backgroundOffset (update t d s') =
        backgroundOffset s' + 130 * min (d / 1000) (1 / 60)" for t d s'
    by (simp add: update_backgroundOffset CONSTANT_SCROLL_SPEED_def)
  show ?thesis using m f w b by blast
qed

text \<open>
  A run of the created scene: one gliding frame of 16 ms, then a thrusting frame of 20 ms
  and a frame of 0 ms.
\<close>

theorem offsets_monotone_run:
  "list_all nonnegDelta [Pointerdown, Update 16 20, Pointerup, Update 36 0] \<and>
   worldOffset (run [Update 0 16] create) \<le>
     worldOffset (run ([Update 0 16] @ [Pointerdown, Update 16 20, Pointerup, Update 36 0]) create) \<and>
   backgroundOffset (run [Update 0 16] create) \<le>
     backgroundOffset (run ([Update 0 16] @ [Pointerdown, Update 16 20, Pointerup, Update 36 0]) create) \<and>
   worldOffset (run [Update 0 16] create) = 112 / 100 \<and>
   backgroundOffset (run [Update 0 16] create) = 208 / 100"
proof -
  have h: "list_all nonnegDelta [Pointerdown, Update 16 20, Pointerup, Update 36 0]"
    by simp
  have v: "forwardVelocity (update 0 16 create) = 70"
    using update_forwardVelocity_Clamp [of 0 16 create]
    by (simp add: Clamp_def create_def PHYSICS_defs)
  have w: "worldOffset (run [Update 0 16] create) = 112 / 100"
    using update_worldOffset [of 0 16 create] v
    by (simp add: WORLD_SCROLL_FACTOR_def create_def)
  have b: "backgroundOffset (run [Update 0 16] create) = 208 / 100"
    using update_backgroundOffset [of 0 16 create]
    by (simp add: CONSTANT_SCROLL_SPEED_def create_def)
  from offsets_monotone [OF h, of "[Update 0 16]" create] h w b
  show ?thesis by blast
qed

text \<open>
  C7: \<^verbatim>\<open>backgroundOffset\<close> does not depend on input or gameplay speed. Two runs
  from the same state whose frames have the same \<open>delta\<close>s, whatever pointer events and
  physics passes lie between the frames of either, show the same
  \<^verbatim>\<open>backgroundOffset\<close> after every frame and at the end: the values are those of
  the accumulator that adds \<open>CONSTANT_SCROLL_SPEED * delta\<close> per frame.
\<close>

theorem backgroundOffset_independent:
  assumes "frameDeltas evs1 = frameDeltas evs2"
  shows
    "backgroundOffsets evs1 s = backgroundOffsets evs2 s \<and>
     backgroundOffset (run evs1 s) = backgroundOffset (run evs2 s) \<and>
     backgroundOffsets evs1 s = accumulate (backgroundOffset s) (frameDeltas evs1)"
proof -
  have "backgroundOffsets evs1 s = accumulate (backgroundOffset s) (frameDeltas evs1)"
    by (rule backgroundOffsets_accumulate)
  moreover have "backgroundOffsets evs2 s = accumulate (backgroundOffset s) (frameDeltas evs2)"
    by (rule backgroundOffsets_accumulate)
  moreover have "backgroundOffset (run evs1 s) = backgroundOffset (run evs2 s)"
    using assms by (simp add: run_backgroundOffset)
  ultimately show ?thesis using assms by simp
qed

text \<open>
  Two frames of 16 ms, gliding in one run and thrusting in the second frame of the other:
  the forward velocities end apart, the background offsets agree after each frame.
\<close>

theorem backgroundOffset_independent_run:
  "frameDeltas [Update 0 16, Update 16 16] = frameDeltas [Update 0 16, Pointerdown, Update 16 16] \<and>
   backgroundOffsets [Update 0 16, Update 16 16] create =
     backgroundOffsets [Update 0 16, Pointerdown, Update 16 16] create \<and>
   backgroundOffsets [Update 0 16, Update 16 16] create = [208 / 100, 416 / 100] \<and>
   backgroundOffset (run [Update 0 16, Update 16 16] create) =
     backgroundOffset (run [Update 0 16, Pointerdown, Update 16 16] create) \<and>
   forwardVelocity (run [Update 0 16, Update 16 16] create) = 70 \<and>
   forwardVelocity (run [Update 0 16, Pointerdown, Update 16 16] create) = 7032 / 100"
proof -
  have h: "frameDeltas [Update 0 16, Update 16 16] =
      frameDeltas [Update 0 16, Pointerdown, Update 16 16]"
    by simp
  have v1: "forwardVelocity (update 0 16 create) = 70"
    using update_forwardVelocity_Clamp [of 0 16 create]
    by (simp add: Clamp_def create_def PHYSICS_defs)
  have g: "\<not> isThrusting (update 0 16 create)"
    using update_isThrusting [of 0 16 create] by (simp add: create_def)
  have y: "body_velocity_y (bird (update 0 16 create)) = 0"
    using update_bird [of 0 16 create]
    by (simp add: constrainBirdPosition_vy updateForwardVelocity_bird applyPhysics_bird
        create_def HEIGHT_def)
  have v2: "forwardVelocity (update 16 16 (update 0 16 create)) = 70"
    using update_forwardVelocity_Clamp [of 16 16 "update 0 16 create"] v1 g y
    by (simp add: Clamp_def PHYSICS_defs)
  have v3: "forwardVelocity (update 16 16 (pointerdown (update 0 16 create))) = 7032 / 100"
    using update_forwardVelocity_Clamp [of 16 16 "pointerdown (update 0 16 create)"] v1
    by (simp add: Clamp_def PHYSICS_defs pointerdown_def)
  have a: "accumulate (backgroundOffset create) (frameDeltas [Update 0 16, Update 16 16]) =
      [208 / 100, 416 / 100]"
    by (simp add: create_def CONSTANT_SCROLL_SPEED_def)
  from backgroundOffset_independent [OF h, of create] h a v2 v3
  show ?thesis by simp
qed

text \<open>
  C8: the camera step sets \<^verbatim>\<open>cameraTargetX\<close> to \<open>worldOffset * 0.2\<close> and moves
  the camera scroll to \<open>scrollX + CAMERA_LERP * (cameraTargetX - scrollX)\<close> with
  \<open>CAMERA_LERP = 0.1\<close>. Inside a frame the target is computed from the
  \<^verbatim>\<open>worldOffset\<close> the frame started with, since the world step comes later: after a
  frame of positive \<open>delta\<close> the target is behind \<open>0.2\<close> times the new
  \<^verbatim>\<open>worldOffset\<close>. A camera that is off its target before the frame does not land on
  the target in that frame.
\<close>

theorem updateCamera_rule:
  "cameraTargetX (updateCamera dt s) = worldOffset s * (2 / 10) \<and>
   scrollX (updateCamera dt s) =
     scrollX s + (1 / 10) * (cameraTargetX (updateCamera dt s) - scrollX s) \<and>
   cameraTargetX (update t d s) = worldOffset s * (2 / 10) \<and>
   scrollX (update t d s) = scrollX s + (1 / 10) * (cameraTargetX (update t d s) - scrollX s) \<and>
   (0 < d \<longrightarrow> cameraTargetX (update t d s) < worldOffset (update t d s) * (2 / 10)) \<and>
   (scrollX s \<noteq> worldOffset s * (2 / 10) \<longrightarrow>
      scrollX (update t d s) \<noteq> cameraTargetX (update t d s))"
proof -
  have c: "cameraTargetX (updateCamera dt s) = worldOffset s * (2 / 10)"
    by (simp add: updateCamera_fields)
  have x: "scrollX (updateCamera dt s) =
     scrollX s + (1 / 10) * (cameraTargetX (updateCamera dt s) - scrollX s)"
    by (simp add: updateCamera_fields Linear_def CAMERA_LERP_def)
  have cu: "cameraTargetX (update t d s) = worldOffset s * (2 / 10)"
    by (simp add: update_camera)
  have xu: "scrollX (update t d s) =
     scrollX s + (1 / 10) * (cameraTargetX (update t d s) - scrollX s)"
    by (simp add: update_camera Linear_def CAMERA_LERP_def)
  have lead: "cameraTargetX (update t d s) < worldOffset (update t d s) * (2 / 10)" if "0 < d"
  proof -
    have "0 < forwardVelocity (update t d s)"
      using update_forwardVelocity_bounds [of t d s] by (simp add: BASE_FORWARD_SPEED_def)
    moreover have "0 < min (d / 1000) (1 / 60 :: real)"
      using that by simp
    ultimately have "0 < forwardVelocity (update t d s) * min (d / 1000) (1 / 60)"
      by (rule mult_pos_pos)
    then have "worldOffset s < worldOffset (update t d s)"
      by (simp add: update_worldOffset WORLD_SCROLL_FACTOR_def)
    then show ?thesis by (simp add: cu)
  qed
  have lag: "scrollX (update t d s) \<noteq> cameraTargetX (update t d s)"
    if ne: "scrollX s \<noteq> worldOffset s * (2 / 10)"
  proof
    assume "scrollX (update t d s) = cameraTargetX (update t d s)"
    with xu have "scrollX s = cameraTargetX (update t d s)"
      by (simp add: algebra_simps)
    then have "scrollX s = worldOffset s * (2 / 10)"
      by (simp add: cu)
    with ne show False by simp
  qed
  show ?thesis using c x cu xu lead lag by blast
qed

text \<open>A frame of 16 ms at \<open>worldOffset = 500\<close> with the camera at the origin.\<close>

theorem updateCamera_scenario:
  "cameraTargetX (update 0 16 (create\<lparr>worldOffset := 500\<rparr>)) = 100 \<and>
   scrollX (update 0 16 (create\<lparr>worldOffset := 500\<rparr>)) = 10 \<and>
   scrollX (update 0 16 (create\<lparr>worldOffset := 500\<rparr>)) \<noteq>
     cameraTargetX (update 0 16 (create\<lparr>worldOffset := 500\<rparr>)) \<and>
   cameraTargetX (update 0 16 (create\<lparr>worldOffset := 500\<rparr>)) <
     worldOffset (update 0 16 (create\<lparr>worldOffset := 500\<rparr>)) * (2 / 10)"
  using updateCamera_rule [where dt = 0 and t = 0 and d = 16 and
      s = "create\<lparr>worldOffset := 500\<rparr>"]
  by (simp add: create_def)

text \<open>
  C9: the world step adds \<open>forwardVelocity * delta * WORLD_SCROLL_FACTOR\<close> to
  \<^verbatim>\<open>worldOffset\<close>; inside a frame the forward velocity is the one the
  forward-velocity step of the same frame has just computed. The distance is
  \<open>\<lfloor>worldOffset / 10\<rfloor>\<close> of the new offset and the text shown is
  \<^verbatim>\<open>Distance: <distance>m\<close>; a \<^verbatim>\<open>worldOffset\<close> of \<open>500\<close> gives the
  distance \<open>50\<close>.
\<close>

theorem updateWorldPosition_rule:
  "worldOffset (updateWorldPosition dt s) = worldOffset s + forwardVelocity s * dt * 1 \<and>
   distance (updateWorldPosition dt s) = \<lfloor>worldOffset (updateWorldPosition dt s) / 10\<rfloor> \<and>
   distanceText (updateWorldPosition dt s) =
     ''Distance: '' @ showInt (distance (updateWorldPosition dt s)) @ ''m'' \<and>
   worldOffset (update t d s) =
     worldOffset s + forwardVelocity (update t d s) * min (d / 1000) (1 / 60) * 1 \<and>
   forwardVelocity (update t d s) =
     forwardVelocity (updateForwardVelocity (min (d / 1000) (1 / 60))
       (applyPhysics (min (d / 1000) (1 / 60)) s)) \<and>
   distance (update t d s) = \<lfloor>worldOffset (update t d s) / 10\<rfloor> \<and>
   distanceText (update t d s) = ''Distance: '' @ showInt (distance (update t d s)) @ ''m'' \<and>
   (worldOffset (updateWorldPosition dt s) = 500 \<longrightarrow>
      distance (updateWorldPosition dt s) = 50 \<and>
      distanceText (updateWorldPosition dt s) = ''Distance: 50m'')"
proof -
  have w: "worldOffset (updateWorldPosition dt s) = worldOffset s + forwardVelocity s * dt * 1"
    by (simp add: updateWorldPosition_fields WORLD_SCROLL_FACTOR_def)
  have d: "distance (updateWorldPosition dt s) = \<lfloor>worldOffset (updateWorldPosition dt s) / 10\<rfloor>"
    by (rule updateWorldPosition_fields)
  have x: "distanceText (updateWorldPosition dt s) =
     ''Distance: '' @ showInt (distance (updateWorldPosition dt s)) @ ''m''"
    by (rule updateWorldPosition_fields)
  have wu: "worldOffset (update t d s) =
     worldOffset s + forwardVelocity (update t d s) * min (d / 1000) (1 / 60) * 1"
    using update_worldOffset [of t d s] by (simp add: WORLD_SCROLL_FACTOR_def)
  have fu: "forwardVelocity (update t d s) =
     forwardVelocity (updateForwardVelocity (min (d / 1000) (1 / 60))
       (applyPhysics (min (d / 1000) (1 / 60)) s))"
    by (rule update_forwardVelocity)
  have du: "distance (update t d s) = \<lfloor>worldOffset (update t d s) / 10\<rfloor>"
    by (rule update_distance)
  have xu: "distanceText (update t d s) =
      ''Distance: '' @ showInt (distance (update t d s)) @ ''m''"
    by (rule update_distance)
  have fifty: "showInt 50 = ''50''"
    by code_simp
  have s: "distance (updateWorldPosition dt s) = 50 \<and>
      distanceText (updateWorldPosition dt s) = ''Distance: 50m''"
    if "worldOffset (updateWorldPosition dt s) = 500"
  proof -
    from that d have "distance (updateWorldPosition dt s) = 50" by simp
    with x fifty show ?thesis by simp
  qed
  show ?thesis using w d x wu fu du xu s by blast
qed

text \<open>Scenario 5 of the spec.\<close>

theorem updateWorldPosition_scenario:
  "worldOffset (updateWorldPosition 0 (create\<lparr>worldOffset := 500\<rparr>)) = 500 \<and>
   distance (updateWorldPosition 0 (create\<lparr>worldOffset := 500\<rparr>)) = 50 \<and>
   distanceText (updateWorldPosition 0 (create\<lparr>worldOffset := 500\<rparr>)) = ''Distance: 50m''"
proof -
  note r = updateWorldPosition_rule [where dt = 0 and t = 0 and d = 0 and
      s = "create\<lparr>worldOffset := 500\<rparr>"]
  have "worldOffset (create\<lparr>worldOffset := 500\<rparr>) = 500"
    by simp
  with r have w: "worldOffset (updateWorldPosition 0 (create\<lparr>worldOffset := 500\<rparr>)) = 500"
    by simp
  with r show ?thesis by blast
qed

text \<open>
  C10: the frame callback and each of its steps leave \<^verbatim>\<open>isThrusting\<close> as it was.
  Of all events of a run only the pointer-down handler, which sets it to true, and the
  pointer-up handler, which sets it to false, write the flag.
\<close>

theorem isThrusting_frame:
  "isThrusting (update t d s) = isThrusting s \<and>
   isThrusting (applyPhysics dt s) = isThrusting s \<and>
   isThrusting (updateForwardVelocity dt s) = isThrusting s \<and>
   isThrusting (constrainBirdPosition s) = isThrusting s \<and>
   isThrusting (updateCamera dt s) = isThrusting s \<and>
   isThrusting (updateWorldPosition dt s) = isThrusting s \<and>
   isThrusting (updateBackgroundScrolling s) = isThrusting s \<and>
   isThrusting (pointerdown s) = True \<and>
   isThrusting (pointerup s) = False \<and>
   isThrusting (step e s) =
     (case e of Pointerdown \<Rightarrow> True | Pointerup \<Rightarrow> False | _ \<Rightarrow> isThrusting s)"
proof -
  have "isThrusting (step e s) =
     (case e of Pointerdown \<Rightarrow> True | Pointerup \<Rightarrow> False | _ \<Rightarrow> isThrusting s)"
    by (cases e) (simp_all add: pointerdown_def pointerup_def update_isThrusting)
  then show ?thesis
    by (simp add: update_isThrusting step_fields pointerdown_def pointerup_def)
qed

text \<open>Frames after a pointer-down, after a pointer-down and a pointer-up, and after neither.\<close>

theorem isThrusting_frame_run:
  "isThrusting (update 0 16 (pointerdown create)) \<and>
   \<not> isThrusting (update 0 16 (pointerup (pointerdown create))) \<and>
   \<not> isThrusting (update 0 16 create)"
  using isThrusting_frame [where t = 0 and d = 16 and dt = 0 and e = Pointerdown and
      s = "pointerdown create"]
    isThrusting_frame [where t = 0 and d = 16 and dt = 0 and e = Pointerdown and
      s = "pointerup (pointerdown create)"]
    isThrusting_frame [where t = 0 and d = 16 and dt = 0 and e = Pointerdown and s = create]
    isThrusting_frame [where t = 0 and d = 16 and dt = 0 and e = Pointerup and
      s = "pointerdown create"]
  by (simp add: create_def)

end
